theory Spec2Isabelle
  imports Complex_Main "HOL-Library.AList"
begin

section \<open>Data model (app/models/workflow.py)\<close>

datatype WorkflowStatus = DRAFT | ACTIVE | PAUSED | ERROR

datatype TriggerType = MANUAL | WEBHOOK | SCHEDULE | EVENT

datatype ActionType = API_CALL | AI_PROCESS | DATA_TRANSFORM | NOTIFICATION | INTEGRATION_ACTION

datatype ExecutionStatus = PENDING | RUNNING | SUCCESS | FAILED | CANCELLED

text \<open>
  Values of Python type \<open>Any\<close> that travel through the service as JSON. A \<open>Dict[str, Any]\<close>
  is an association list in insertion order; \<open>JDec m e\<close> is the decimal \<open>m / 10^e\<close>
  (the node type versions 4.1, 2.1, 1.3, 1.2 of the translator).
\<close>

datatype jval =
    JNull
  | JBool bool
  | JInt int
  | JDec int nat
  | JStr string
  | JList "jval list"
  | JObj "(string \<times> jval) list"

type_synonym jdict = "(string \<times> jval) list"

text \<open>\<open>d.get(k, default)\<close> of a Python dict.\<close>

definition dict_get :: "jdict \<Rightarrow> string \<Rightarrow> jval \<Rightarrow> jval" where
  "dict_get d k dflt = (case map_of d k of None \<Rightarrow> dflt | Some v \<Rightarrow> v)"

text \<open>
  A Python \<open>datetime\<close>: the wall-clock fields as microseconds since the epoch, and the UTC
  offset in microseconds of an aware value (\<open>None\<close> for a naive one, as \<open>datetime.utcnow()\<close>
  returns and as the database driver hands back).
\<close>

record datetime =
  ticks :: int
  utcoffset :: "int option"

text \<open>
  Every \<open>raise Exception(msg)\<close> of the services is the value \<open>Exception msg\<close>;
  \<open>ValidationError\<close> is what a pydantic model constructor raises on a document it cannot
  validate.
\<close>

datatype exn = Exception string | ValidationError

definition WorkflowNotFound :: exn where
  "WorkflowNotFound = Exception ''Workflow not found''"




definition ExecutionNotFound :: exn where
  "ExecutionNotFound = Exception ''Execution not found''"

record WorkflowStep =
  step_id :: string
  step_name :: string
  action_type :: ActionType
  integration_id :: "string option"
  config :: jdict
  input_mapping :: "(string \<times> string) list"
  output_mapping :: "(string \<times> string) list"
  timeout_seconds :: int
  retry_count :: int
  on_error :: string
  order :: int
  depends_on :: "string list"

record Workflow =
  wf_id :: string
  wf_user_id :: string
  team_id :: string
  wf_name :: string
  description :: "string option"
  trigger_type :: TriggerType
  trigger_config :: jdict
  steps :: "WorkflowStep list"
  n8n_workflow_id :: "string option"
  n8n_webhook_id :: "string option"
  status :: WorkflowStatus
  is_template :: bool
  tags :: "string list"
  max_concurrent_executions :: int
  execution_timeout_minutes :: int
  created_at :: datetime
  updated_at :: datetime

text \<open>
  An execution as the collection stores it. \<open>step_results\<close> and \<open>error_message\<close> hold
  whatever was last written to them: the reconciliation writes the engine's \<open>data\<close> and
  \<open>error\<close> with \<open>$set\<close> as they come, so the stored values are JSON values, not
  necessarily of the declared types \<open>Dict[str, Any]\<close> and \<open>Optional[str]\<close> (\<open>JNull\<close> is
  \<open>None\<close>). \<open>duration_seconds\<close> is a float: it is kept as the rational number that the
  binary64 value is.
\<close>

record WorkflowExecution =
  exec_id :: string
  workflow_id :: string
  exec_user_id :: string
  exec_status :: ExecutionStatus
  trigger_data :: jdict
  step_results :: jval
  output_data :: jdict
  error_message :: jval
  started_at :: datetime
  completed_at :: "datetime option"
  duration_seconds :: "rat option"
  n8n_execution_id :: "string option"

text \<open>
  \<open>WorkflowExecution(**execution_doc)\<close>: the model constructor validates the stored
  document (pydantic 2, as \<open>pydantic_settings\<close> in app/core/config.py tells). The two
  fields that are written unvalidated are the ones that can fail: \<open>step_results\<close> must be
  an object, \<open>error_message\<close> a string or \<open>None\<close>.
\<close>

definition validates_execution :: "WorkflowExecution \<Rightarrow> bool" where
  "validates_execution doc =
     ((case step_results doc of JObj kvs \<Rightarrow> True | _ \<Rightarrow> False)
      \<and> (case error_message doc of JNull \<Rightarrow> True | JStr m \<Rightarrow> True | _ \<Rightarrow> False))"

section \<open>Engine status translation (N8NService.get_execution_status, lines 292-300)\<close>

definition status_mapping :: "(string \<times> ExecutionStatus) list" where
  "status_mapping =
     [(''running'', RUNNING),
      (''success'', SUCCESS),
      (''failed'', FAILED),
      (''canceled'', CANCELLED),
      (''waiting'', PENDING)]"

text \<open>\<open>status_mapping.get(n8n_execution["status"], ExecutionStatus.FAILED)\<close>\<close>

definition our_status :: "string \<Rightarrow> ExecutionStatus" where
  "our_status s = (case map_of status_mapping s of None \<Rightarrow> FAILED | Some st \<Rightarrow> st)"

section \<open>Graph translator (N8NService._convert_to_n8n_format and helpers)\<close>

record n8n_node =
  parameters :: jdict
  node_id :: string
  node_name :: string
  node_type :: string
  typeVersion :: jval
  position :: "int \<times> int"

text \<open>One entry \<open>{"node": .., "type": "main", "index": 0}\<close> of a connection list.\<close>

record n8n_connection =
  conn_node :: string
  conn_type :: string
  conn_index :: int

text \<open>
  The \<open>connections\<close> dict, in insertion order. The value stored under a source node name is
  always \<open>{"main": [targets]}\<close> with exactly one inner list (it is created as
  \<open>{"main": [[]]}\<close> and only \<open>["main"][0]\<close> is ever appended to), so the value is kept as
  that inner list \<open>targets\<close>.
\<close>

type_synonym connections = "(string \<times> n8n_connection list) list"

record n8n_workflow =
  nw_name :: string
  nw_active :: bool
  nw_nodes :: "n8n_node list"
  nw_connections :: connections
  nw_settings :: jdict
  nw_tags :: "string list"

text \<open>Python's \<open>str\<close> of a non-negative integer (the \<open>{index}\<close> of the node id).\<close>

definition digit_char :: "nat \<Rightarrow> char" where
  "digit_char d = char_of (48 + d)"

fun str_nat :: "nat \<Rightarrow> string" where
  "str_nat n = (if n < 10 then [digit_char n] else str_nat (n div 10) @ [digit_char (n mod 10)])"

definition create_trigger_node :: "TriggerType \<Rightarrow> jdict \<Rightarrow> n8n_node" where
  "create_trigger_node tt tc =
     (if tt = WEBHOOK then
        \<lparr>parameters =
           [(''httpMethod'', dict_get tc ''method'' (JStr ''POST'')),
            (''path'', dict_get tc ''path'' (JStr ''webhook'')),
            (''responseMode'', JStr ''responseNode''),
            (''options'', JObj [])],
         node_id = ''trigger-webhook'',
         node_name = ''Webhook Trigger'',
         node_type = ''n8n-nodes-base.webhook'',
         typeVersion = JInt 1,
         position = (250, 300)\<rparr>
      else if tt = SCHEDULE then
        \<lparr>parameters =
           [(''rule'', JObj
              [(''interval'', dict_get tc ''interval''
                 (JList [JObj [(''field'', JStr ''cronExpression''),
                               (''expression'', JStr ''0 9 * * *'')]]))])],
         node_id = ''trigger-schedule'',
         node_name = ''Schedule Trigger'',
         node_type = ''n8n-nodes-base.cron'',
         typeVersion = JInt 1,
         position = (250, 300)\<rparr>
      else
        \<lparr>parameters = [],
         node_id = ''trigger-manual'',
         node_name = ''Manual Trigger'',
         node_type = ''n8n-nodes-base.manualTrigger'',
         typeVersion = JInt 1,
         position = (250, 300)\<rparr>)"

definition create_integration_node :: "WorkflowStep \<Rightarrow> string \<Rightarrow> int \<Rightarrow> n8n_node" where
  "create_integration_node step nid position_y =
     (let integration_type = dict_get (config step) ''integration_type'' (JStr []) in
      if integration_type = JStr ''slack'' then
        \<lparr>parameters =
           [(''authentication'', JStr ''oAuth2''),
            (''resource'', JStr ''message''),
            (''operation'', dict_get (config step) ''operation'' (JStr ''post'')),
            (''channel'', dict_get (config step) ''channel'' (JStr [])),
            (''text'', dict_get (config step) ''text'' (JStr []))],
         node_id = nid,
         node_name = step_name step,
         node_type = ''n8n-nodes-base.slack'',
         typeVersion = JDec 21 1,
         position = (450, position_y)\<rparr>
      else if integration_type = JStr ''github'' then
        \<lparr>parameters =
           [(''authentication'', JStr ''oAuth2''),
            (''resource'', JStr ''issue''),
            (''operation'', dict_get (config step) ''operation'' (JStr ''create'')),
            (''owner'', dict_get (config step) ''owner'' (JStr [])),
            (''repository'', dict_get (config step) ''repository'' (JStr [])),
            (''title'', dict_get (config step) ''title'' (JStr [])),
            (''body'', dict_get (config step) ''body'' (JStr []))],
         node_id = nid,
         node_name = step_name step,
         node_type = ''n8n-nodes-base.github'',
         typeVersion = JDec 12 1,
         position = (450, position_y)\<rparr>
      else
        \<lparr>parameters =
           [(''url'', dict_get (config step) ''url'' (JStr [])),
            (''requestMethod'', dict_get (config step) ''method'' (JStr ''POST''))],
         node_id = nid,
         node_name = step_name step,
         node_type = ''n8n-nodes-base.httpRequest'',
         typeVersion = JDec 41 1,
         position = (450, position_y)\<rparr>)"

definition create_step_node :: "WorkflowStep \<Rightarrow> nat \<Rightarrow> n8n_node" where
  "create_step_node step index =
     (let nid = ''step-'' @ str_nat index @ ''-'' @ step_id step;
          position_y = 300 + (int index + 1) * 180 in
      if action_type step = API_CALL then
        \<lparr>parameters =
           [(''url'', dict_get (config step) ''url'' (JStr [])),
            (''requestMethod'', dict_get (config step) ''method'' (JStr ''GET'')),
            (''sendHeaders'', JBool True),
            (''headerParameters'',
               JObj [(''parameters'', dict_get (config step) ''headers'' (JList []))]),
            (''sendBody'', JBool (dict_get (config step) ''method'' (JStr ''GET'')
               \<in> set [JStr ''POST'', JStr ''PUT'', JStr ''PATCH''])),
            (''bodyParameters'',
               JObj [(''parameters'', dict_get (config step) ''body'' (JList []))])],
         node_id = nid,
         node_name = step_name step,
         node_type = ''n8n-nodes-base.httpRequest'',
         typeVersion = JDec 41 1,
         position = (450, position_y)\<rparr>
      else if action_type step = INTEGRATION_ACTION then
        create_integration_node step nid position_y
      else if action_type step = AI_PROCESS then
        \<lparr>parameters =
           [(''model'', dict_get (config step) ''model'' (JStr ''gpt-4'')),
            (''messages'', JObj [(''values'', JList
               [JObj [(''role'', JStr ''user''),
                      (''content'', dict_get (config step) ''prompt'' (JStr []))]])])],
         node_id = nid,
         node_name = step_name step,
         node_type = ''n8n-nodes-base.openAi'',
         typeVersion = JDec 13 1,
         position = (450, position_y)\<rparr>
      else
        \<lparr>parameters =
           [(''functionCode'', dict_get (config step) ''code'' (JStr ''return items;''))],
         node_id = nid,
         node_name = step_name step,
         node_type = ''n8n-nodes-base.function'',
         typeVersion = JInt 1,
         position = (450, position_y)\<rparr>)"

text \<open>
  The connection step of the loop body:
  \<^verbatim>\<open>
  if previous_node not in connections:
      connections[previous_node] = {"main": [[]]}
  connections[previous_node]["main"][0].append({"node": name, "type": "main", "index": 0})
  \<close>
\<close>

definition connect :: "connections \<Rightarrow> string \<Rightarrow> string \<Rightarrow> connections" where
  "connect conns previous_node target =
     (let conns1 = (if map_of conns previous_node = None
                    then conns @ [(previous_node, [])] else conns);
          entry = \<lparr>conn_node = target, conn_type = ''main'', conn_index = 0\<rparr>
      in map (\<lambda>(k, v). if k = previous_node then (k, v @ [entry]) else (k, v)) conns1)"

text \<open>
  The loop \<open>for i, step in enumerate(workflow.steps)\<close>, with its state
  (\<open>previous_node\<close>, \<open>nodes\<close>, \<open>connections\<close>) passed along; it walks the stored list
  \<open>workflow.steps\<close> front to back.
\<close>

fun convert_steps ::
  "WorkflowStep list \<Rightarrow> nat \<Rightarrow> string \<Rightarrow> n8n_node list \<Rightarrow> connections
     \<Rightarrow> n8n_node list \<times> connections" where
  "convert_steps [] i previous_node nodes conns = (nodes, conns)"
| "convert_steps (step # rest) i previous_node nodes conns =
     (let step_node = create_step_node step i in
      convert_steps rest (Suc i) (node_name step_node) (nodes @ [step_node])
        (connect conns previous_node (node_name step_node)))"

definition convert_to_n8n_format :: "Workflow \<Rightarrow> n8n_workflow" where
  "convert_to_n8n_format workflow =
     (let trigger_node = create_trigger_node (trigger_type workflow) (trigger_config workflow);
          (nodes, conns) = convert_steps (steps workflow) 0 (node_name trigger_node)
                             [trigger_node] []
      in \<lparr>nw_name = wf_name workflow,
          nw_active = True,
          nw_nodes = nodes,
          nw_connections = conns,
          nw_settings = [(''executionOrder'', JStr ''v1'')],
          nw_tags = tags workflow\<rparr>)"

text \<open>
  The spec's reading of the translator, for comparison with the code: the steps taken in
  ascending \<open>order\<close>, and the connection map of a linear chain through a list of node names
  (\<open>[t, a, b]\<close> gives \<open>t \<rightarrow> a\<close>, \<open>a \<rightarrow> b\<close>).
\<close>

definition steps_by_order :: "Workflow \<Rightarrow> WorkflowStep list" where
  "steps_by_order workflow = sort_key order (steps workflow)"

definition edge :: "string \<Rightarrow> string \<Rightarrow> string \<times> n8n_connection list" where
  "edge a b = (a, [\<lparr>conn_node = b, conn_type = ''main'', conn_index = 0\<rparr>])"

definition linear_chain :: "string list \<Rightarrow> connections" where
  "linear_chain names = map2 edge (butlast names) (tl names)"

definition trigger_name :: "Workflow \<Rightarrow> string" where
  "trigger_name workflow =
     node_name (create_trigger_node (trigger_type workflow) (trigger_config workflow))"

section \<open>The database: two collections of documents\<close>

record db =
  workflows :: "Workflow list"
  workflow_executions :: "WorkflowExecution list"

text \<open>
  The collection operations the services use, on a collection as the list of its documents
  in natural order. A filter document is a predicate; \<open>find_one\<close>, \<open>update_one\<close> and
  \<open>delete_one\<close> act on the first document that matches. No unique index is declared on
  the \<open>id\<close> fields (app/db/mongodb.py), so nothing here assumes ids are unique.
\<close>

definition find_one :: "('a \<Rightarrow> bool) \<Rightarrow> 'a list \<Rightarrow> 'a option" where
  "find_one P xs = find P xs"

fun update_one :: "('a \<Rightarrow> bool) \<Rightarrow> ('a \<Rightarrow> 'a) \<Rightarrow> 'a list \<Rightarrow> 'a list" where
  "update_one P f [] = []"
| "update_one P f (x # xs) = (if P x then f x # xs else x # update_one P f xs)"


text \<open>The server counts a matched document as modified only when the update changed it.\<close>

definition modified_count :: "('a \<Rightarrow> bool) \<Rightarrow> ('a \<Rightarrow> 'a) \<Rightarrow> 'a list \<Rightarrow> nat" where
  "modified_count P f xs = (case find P xs of None \<Rightarrow> 0 | Some x \<Rightarrow> if f x = x then 0 else 1)"





text \<open>Python truthiness of an \<open>Optional[str]\<close>: \<open>None\<close> and the empty string are falsy.\<close>

fun truthy :: "string option \<Rightarrow> bool" where
  "truthy None = False"
| "truthy (Some s) = (s \<noteq> [])"

section \<open>The external engine behind N8NService.http_client\<close>

text \<open>
  \<open>finishedAt\<close> of an engine execution, after
  \<open>datetime.fromisoformat(finishedAt.replace("Z", "+00:00"))\<close>: absent or falsy, a value
  on which that expression raises (with the \<open>str\<close> of the exception), or the datetime
  parsed. A string ending in \<open>Z\<close> or carrying an offset parses to an aware datetime.
\<close>

datatype finishedAt = NoFinish | BadFinish string | Finished datetime

text \<open>
  The \<open>data\<close> object of \<open>GET /api/v1/executions/{id}\<close>: \<open>ex_status\<close> is the status
  string, \<open>None\<close> when the key \<open>status\<close> is missing; \<open>ex_data\<close> and \<open>ex_error\<close> are
  \<open>None\<close> when their keys are missing, and any JSON value otherwise.
\<close>

record n8n_execution =
  ex_status :: "string option"
  ex_data :: "jval option"
  ex_error :: "jval option"
  ex_finishedAt :: finishedAt

text \<open>
  What the engine answers to each request of the service at the time of a call. A request
  that raises (network failure, \<open>raise_for_status\<close>, a missing key of the answer) is the
  \<open>str\<close> of its exception: \<open>Inl\<close> of it, or \<open>Some\<close> of it for a request whose answer
  is not read. \<open>webhook_base\<close> is \<open>settings.N8N_WEBHOOK_URL\<close>.
\<close>

record engine =
  post_workflows :: "n8n_workflow \<Rightarrow> string + string"
  patch_activate :: "string \<Rightarrow> string option"
  post_execute :: "string \<Rightarrow> jdict \<Rightarrow> string + string"
  get_executions :: "string \<Rightarrow> string + n8n_execution"
  delete_workflows :: "string \<Rightarrow> string option"
  webhook_base :: string

section \<open>N8NService\<close>





text \<open>
  Subtraction of two datetimes: both naive or both aware, else Python raises
  \<open>TypeError\<close>. The difference is a timedelta, in microseconds.
\<close>

definition dt_sub :: "datetime \<Rightarrow> datetime \<Rightarrow> string + int" where
  "dt_sub a b =
     (case (utcoffset a, utcoffset b) of
        (None, None) \<Rightarrow> Inr (ticks a - ticks b)
      | (Some oa, Some ob) \<Rightarrow> Inr ((ticks a - oa) - (ticks b - ob))
      | _ \<Rightarrow> Inl ''can't subtract offset-naive and offset-aware datetimes'')"

text \<open>
  Python's \<open>a / b\<close> on two ints, for \<open>b > 0\<close>: the binary64 float nearest to the exact
  quotient, ties to even, given as the rational number it is. \<open>2^e\<close> is the power of two
  with \<open>2^e \<le> |a| / b < 2^(e+1)\<close>, and the quotient is rounded to a whole multiple of
  \<open>2^(e-52)\<close> (53 significant bits). Quotients outside the normal range of binary64 do not
  occur for a timedelta over \<open>10^6\<close> and are not modelled.
\<close>

function bit_length :: "int \<Rightarrow> int" where
  "bit_length n = (if n \<le> 0 then 0 else 1 + bit_length (n div 2))"
  by pat_completeness auto
termination
  by (relation "measure nat") auto

declare bit_length.simps [simp del]

definition round_half_even :: "int \<Rightarrow> int \<Rightarrow> int" where
  "round_half_even n d =
     (let q = n div d; r = n mod d in
      if 2 * r < d then q else if d < 2 * r then q + 1 else if even q then q else q + 1)"

text \<open>The \<open>e\<close> with \<open>2^e \<le> n / b < 2^(e+1)\<close>, for \<open>n > 0\<close> and \<open>b > 0\<close>.\<close>

definition float_exponent :: "int \<Rightarrow> int \<Rightarrow> int" where
  "float_exponent n b =
     (let dlen = bit_length n - bit_length b in
      if (if 0 \<le> dlen then b * 2 ^ nat dlen \<le> n else b \<le> n * 2 ^ nat (- dlen))
      then dlen else dlen - 1)"

definition py_truediv :: "int \<Rightarrow> int \<Rightarrow> rat" where
  "py_truediv a b =
     (if a = 0 then 0
      else
        let n = \<bar>a\<bar>;
            shift = 52 - float_exponent n b;
            m = (if 0 \<le> shift then round_half_even (n * 2 ^ nat shift) b
                 else round_half_even n (b * 2 ^ nat (- shift)))
        in of_int (sgn a * m) * (if 0 \<le> shift then 1 / 2 ^ nat shift else 2 ^ nat (- shift)))"

text \<open>
  \<open>timedelta.total_seconds()\<close> is the timedelta's microseconds \<open>/ 10**6\<close>, a float.
\<close>

definition total_seconds :: "int \<Rightarrow> rat" where
  "total_seconds td = py_truediv td 1000000"

text \<open>
  What \<open>get_execution_status\<close> returns: the two-key dict \<open>{"status", "error"}\<close>, or the
  five-key dict of a reconciliation that went through (the datetimes before
  \<open>isoformat()\<close>).
\<close>

datatype status_result =
    StatusError ExecutionStatus string
  | StatusOk ExecutionStatus jval jval datetime "datetime option"

text \<open>
  \<open>N8NService.get_execution_status\<close>. The stored document is validated by the model
  constructor before the \<open>try\<close>, so a \<open>ValidationError\<close> propagates to the caller.
  There is no test of the stored status: every call asks the engine, and every answer
  that gets through the \<open>try\<close> is written with \<open>$set\<close>. \<open>completed_at\<close> and
  \<open>duration_seconds\<close> enter \<open>update_data\<close> only under
  \<open>if n8n_execution.get("finishedAt")\<close>; the clock is not read. Any exception inside the
  \<open>try\<close> returns \<open>{"status": FAILED, "error": str(e)}\<close> before \<open>update_one\<close> is reached.
\<close>

definition n8n_get_execution_status ::
  "db \<Rightarrow> engine \<Rightarrow> string \<Rightarrow> db \<times> (exn + status_result)" where
  "n8n_get_execution_status d eng eid =
     (case find_one (\<lambda>e. exec_id e = eid) (workflow_executions d) of
        None \<Rightarrow> (d, Inl ExecutionNotFound)
      | Some execution \<Rightarrow>
          if \<not> validates_execution execution then (d, Inl ValidationError)
          else if \<not> truthy (n8n_execution_id execution)
          then (d, Inr (StatusError (exec_status execution) ''No n8n execution ID''))
          else
            (case get_executions eng (the (n8n_execution_id execution)) of
               Inl e \<Rightarrow> (d, Inr (StatusError FAILED e))
             | Inr n8n \<Rightarrow>
                 (case ex_status n8n of
                    None \<Rightarrow> (d, Inr (StatusError FAILED (CHR 0x27 # ''status'' @ [CHR 0x27])))
                  | Some s \<Rightarrow>
                      let ours = our_status s;
                          data = (case ex_data n8n of None \<Rightarrow> JObj [] | Some v \<Rightarrow> v);
                          err = (case ex_error n8n of None \<Rightarrow> JStr [] | Some v \<Rightarrow> v);
                          upd = (\<lambda>e. e\<lparr>exec_status := ours, step_results := data,
                                         error_message := err\<rparr>);
                          ok = (\<lambda>u c.
                            (d\<lparr>workflow_executions :=
                                 update_one (\<lambda>e. exec_id e = eid) u (workflow_executions d)\<rparr>,
                             Inr (StatusOk ours data err (started_at execution) c)))
                      in
                      (case ex_finishedAt n8n of
                         NoFinish \<Rightarrow> ok upd None
                       | BadFinish m \<Rightarrow> (d, Inr (StatusError FAILED m))
                       | Finished fin \<Rightarrow>
                           (case dt_sub fin (started_at execution) of
                              Inl m \<Rightarrow> (d, Inr (StatusError FAILED m))
                            | Inr td \<Rightarrow>
                                ok (\<lambda>e. (upd e)\<lparr>completed_at := Some fin,
                                          duration_seconds := Some (total_seconds td)\<rparr>)
                                   (Some fin))))))"

text \<open>The \<open>status\<close> entry of the dict returned.\<close>

fun result_status :: "status_result \<Rightarrow> ExecutionStatus" where
  "result_status (StatusError s m) = s"
| "result_status (StatusOk s dat err st c) = s"

text \<open>
  The part of \<open>update_data\<close> that every reconciliation writes: the translated status,
  \<open>n8n_execution.get("data", {})\<close> and \<open>n8n_execution.get("error", "")\<close>.
\<close>

definition reconciled :: "n8n_execution \<Rightarrow> string \<Rightarrow> WorkflowExecution \<Rightarrow> WorkflowExecution" where
  "reconciled r s =
     (\<lambda>e. e\<lparr>exec_status := our_status s,
       step_results := (case ex_data r of None \<Rightarrow> JObj [] | Some v \<Rightarrow> v),
       error_message := (case ex_error r of None \<Rightarrow> JStr [] | Some v \<Rightarrow> v)\<rparr>)"



section \<open>WorkflowService\<close>






definition get_workflow :: "db \<Rightarrow> string \<Rightarrow> string \<Rightarrow> Workflow option" where
  "get_workflow d wid uid = find_one (\<lambda>w. wf_id w = wid \<and> wf_user_id w = uid) (workflows d)"



text \<open>
  \<open>add_workflow_step\<close>: the only failure is a workflow that is not found; the step's
  \<open>order\<close> is overwritten with \<open>len(workflow.steps)\<close>, and the step is pushed at the end
  of the stored list.
\<close>

definition add_workflow_step ::
  "db \<Rightarrow> string \<Rightarrow> string \<Rightarrow> WorkflowStep \<Rightarrow> datetime \<Rightarrow> db \<times> (exn + WorkflowStep)" where
  "add_workflow_step d wid uid step now =
     (let flt = (\<lambda>w. wf_id w = wid \<and> wf_user_id w = uid) in
      case find_one flt (workflows d) of
        None \<Rightarrow> (d, Inl WorkflowNotFound)
      | Some workflow \<Rightarrow>
          let step' = step\<lparr>order := int (length (steps workflow))\<rparr> in
          (d\<lparr>workflows :=
               update_one flt (\<lambda>w. w\<lparr>steps := steps w @ [step'], updated_at := now\<rparr>)
                 (workflows d)\<rparr>,
           Inr step'))"





text \<open>
  \<open>remove_workflow_step\<close>: \<open>$pull\<close> takes every step with the id out of the array; the
  steps that stay keep the \<open>order\<close> they had.
\<close>

definition remove_workflow_step ::
  "db \<Rightarrow> string \<Rightarrow> string \<Rightarrow> string \<Rightarrow> datetime \<Rightarrow> db \<times> bool" where
  "remove_workflow_step d wid uid sid now =
     (let flt = (\<lambda>w. wf_id w = wid \<and> wf_user_id w = uid);
          f = (\<lambda>w. w\<lparr>steps := filter (\<lambda>s. step_id s \<noteq> sid) (steps w), updated_at := now\<rparr>)
      in (d\<lparr>workflows := update_one flt f (workflows d)\<rparr>,
          modified_count flt f (workflows d) > 0))"





definition get_execution_status ::
  "db \<Rightarrow> engine \<Rightarrow> string \<Rightarrow> string \<Rightarrow> db \<times> (exn + status_result)" where
  "get_execution_status d eng eid uid =
     (case find_one (\<lambda>e. exec_id e = eid \<and> exec_user_id e = uid) (workflow_executions d) of
        None \<Rightarrow> (d, Inl ExecutionNotFound)
      | Some execution_doc \<Rightarrow> n8n_get_execution_status d eng eid)"








section \<open>Concrete inputs of the examples\<close>

definition mk_step :: "string \<Rightarrow> string \<Rightarrow> int \<Rightarrow> WorkflowStep" where
  "mk_step i n k = \<lparr>step_id = i, step_name = n, action_type = API_CALL, integration_id = None,
     config = [], input_mapping = [], output_mapping = [], timeout_seconds = 300, retry_count = 0,
     on_error = ''stop'', order = k, depends_on = []\<rparr>"

definition t0 :: datetime where
  "t0 = \<lparr>ticks = 1700000000000000, utcoffset = None\<rparr>"

definition mk_workflow :: "string \<Rightarrow> string \<Rightarrow> WorkflowStatus \<Rightarrow> string option \<Rightarrow> WorkflowStep list \<Rightarrow> Workflow" where
  "mk_workflow i u st nid ss =
     \<lparr>wf_id = i, wf_user_id = u, team_id = ''team'', wf_name = ''flow'', description = None,
      trigger_type = MANUAL, trigger_config = [], steps = ss, n8n_workflow_id = nid,
      n8n_webhook_id = None, status = st, is_template = False, tags = [],
      max_concurrent_executions = 1, execution_timeout_minutes = 30,
      created_at = t0, updated_at = t0\<rparr>"

definition wf_abc :: Workflow where
  "wf_abc = mk_workflow ''w1'' ''u1'' DRAFT None
     [mk_step ''s1'' ''A'' 0, mk_step ''s2'' ''B'' 1, mk_step ''s3'' ''C'' 2]"

definition wf_unsorted :: Workflow where
  "wf_unsorted = mk_workflow ''w1'' ''u1'' DRAFT None
     [mk_step ''s3'' ''C'' 2, mk_step ''s4'' ''D'' 1]"

definition mk_execution ::
  "string \<Rightarrow> string \<Rightarrow> ExecutionStatus \<Rightarrow> string option \<Rightarrow> datetime option \<Rightarrow> rat option
     \<Rightarrow> WorkflowExecution" where
  "mk_execution i w st xid fin dur =
     \<lparr>exec_id = i, workflow_id = w, exec_user_id = ''u1'', exec_status = st, trigger_data = [],
      step_results = JObj [], output_data = [], error_message = JNull, started_at = t0,
      completed_at = fin, duration_seconds = dur, n8n_execution_id = xid\<rparr>"

definition engine_down :: engine where
  "engine_down =
     \<lparr>post_workflows = (\<lambda>g. Inl ''connection refused''),
      patch_activate = (\<lambda>i. Some ''connection refused''),
      post_execute = (\<lambda>i t. Inl ''connection refused''),
      get_executions = (\<lambda>i. Inl ''connection refused''),
      delete_workflows = (\<lambda>i. Some ''connection refused''),
      webhook_base = ''http://n8n.local''\<rparr>"

definition engine_up :: "n8n_execution \<Rightarrow> engine" where
  "engine_up r =
     \<lparr>post_workflows = (\<lambda>g. Inr ''n8n-1''),
      patch_activate = (\<lambda>i. None),
      post_execute = (\<lambda>i t. Inr ''x-1''),
      get_executions = (\<lambda>i. Inr r),
      delete_workflows = (\<lambda>i. None),
      webhook_base = ''http://n8n.local''\<rparr>"

definition t45 :: datetime where
  "t45 = \<lparr>ticks = 1700000045000000, utcoffset = None\<rparr>"

definition t90 :: datetime where
  "t90 = \<lparr>ticks = 1700000090000000, utcoffset = None\<rparr>"

definition answer :: "string \<Rightarrow> finishedAt \<Rightarrow> n8n_execution" where
  "answer s fin = \<lparr>ex_status = Some s, ex_data = None, ex_error = None, ex_finishedAt = fin\<rparr>"

definition db_draft :: db where
  "db_draft = \<lparr>workflows = [mk_workflow ''w1'' ''u1'' DRAFT None []], workflow_executions = []\<rparr>"

definition db_active :: db where
  "db_active = \<lparr>workflows = [mk_workflow ''w1'' ''u1'' ACTIVE (Some ''n8n-1'') []],
                 workflow_executions = []\<rparr>"

definition db_pending :: db where
  "db_pending = \<lparr>workflows = [mk_workflow ''w1'' ''u1'' ACTIVE (Some ''n8n-1'') []],
                  workflow_executions = [mk_execution ''e1'' ''w1'' PENDING None None None]\<rparr>"

definition db_running :: db where
  "db_running = \<lparr>workflows = [mk_workflow ''w1'' ''u1'' ACTIVE (Some ''n8n-1'') []],
                  workflow_executions = [mk_execution ''e1'' ''w1'' RUNNING (Some ''x-1'') None None]\<rparr>"

definition db_done :: db where
  "db_done = \<lparr>workflows = [mk_workflow ''w1'' ''u1'' ACTIVE (Some ''n8n-1'') [],
                             mk_workflow ''w2'' ''u1'' ACTIVE (Some ''n8n-2'') []],
               workflow_executions =
                 [mk_execution ''e1'' ''w1'' SUCCESS (Some ''x-1'') (Some t45) (Some 45),
                  mk_execution ''e2'' ''w2'' RUNNING (Some ''x-2'') None None,
                  mk_execution ''e3'' ''w1'' RUNNING (Some ''x-3'') None None]\<rparr>"





definition t45_utc :: datetime where
  "t45_utc = \<lparr>ticks = 1700000045000000, utcoffset = Some 0\<rparr>"

definition wf_abac :: Workflow where
  "wf_abac = mk_workflow ''w1'' ''u1'' DRAFT None
     [mk_step ''s1'' ''A'' 0, mk_step ''s2'' ''B'' 1, mk_step ''s3'' ''A'' 2, mk_step ''s4'' ''C'' 3]"

definition answer_list_data :: n8n_execution where
  "answer_list_data = (answer ''success'' NoFinish)\<lparr>ex_data := Some (JList [JInt 1])\<rparr>"




section \<open>Theorems\<close>

subsection \<open>The graph translator\<close>

lemma node_name_create_step_node: "node_name (create_step_node s i) = step_name s"
  by (simp add: create_step_node_def create_integration_node_def Let_def)

lemma convert_steps_nodes:
  "fst (convert_steps ss i p nodes conns) =
     nodes @ map (\<lambda>(j, s). create_step_node s j) (enumerate i ss)"
  by (induction ss arbitrary: i p nodes conns) (simp_all add: Let_def)

lemma connect_fresh:
  assumes "p \<notin> fst ` set conns"
  shows "connect conns p t = conns @ [edge p t]"
proof -
  have "map_of conns p = None" using assms by (simp add: map_of_eq_None_iff)
  moreover have "map (\<lambda>(k, v). if k = p then (k, v @ [e]) else (k, v)) conns = conns" for e :: n8n_connection
    using assms by (induction conns) auto
  ultimately show ?thesis by (simp add: connect_def edge_def Let_def)
qed

lemma linear_chain_Cons2: "linear_chain (a # b # xs) = edge a b # linear_chain (b # xs)"
  by (simp add: linear_chain_def)

lemma convert_steps_conns:
  "distinct (butlast (p # map step_name ss)) \<Longrightarrow>
   set (butlast (p # map step_name ss)) \<inter> fst ` set conns = {} \<Longrightarrow>
   snd (convert_steps ss i p nodes conns) = conns @ linear_chain (p # map step_name ss)"
proof (induction ss arbitrary: i p nodes conns)
  case Nil
  then show ?case by (simp add: linear_chain_def)
next
  case (Cons s rest)
  have fresh: "p \<notin> fst ` set conns" using Cons.prems(2) by auto
  have c: "connect conns p (step_name s) = conns @ [edge p (step_name s)]"
    by (rule connect_fresh [OF fresh])
  have d: "distinct (butlast (step_name s # map step_name rest))"
    using Cons.prems(1) by simp
  have e: "set (butlast (step_name s # map step_name rest)) \<inter> fst ` set (conns @ [edge p (step_name s)]) = {}"
    using Cons.prems by (auto simp: edge_def)
  show ?case
    using Cons.IH [OF d e, of "Suc i" "nodes @ [create_step_node s i]"] c
    by (simp add: Let_def linear_chain_Cons2 node_name_create_step_node)
qed

lemma nw_nodes_convert:
  "nw_nodes (convert_to_n8n_format wkf) =
     create_trigger_node (trigger_type wkf) (trigger_config wkf)
       # map (\<lambda>(i, s). create_step_node s i) (enumerate 0 (steps wkf))"
  using convert_steps_nodes [of "steps wkf" 0 "trigger_name wkf"
      "[create_trigger_node (trigger_type wkf) (trigger_config wkf)]" "[]"]
  by (simp add: convert_to_n8n_format_def Let_def trigger_name_def case_prod_unfold)

lemma nw_connections_convert:
  "nw_connections (convert_to_n8n_format wkf) =
     snd (convert_steps (steps wkf) 0 (trigger_name wkf)
            [create_trigger_node (trigger_type wkf) (trigger_config wkf)] [])"
  by (simp add: convert_to_n8n_format_def Let_def trigger_name_def case_prod_unfold)

lemma names_enumerate:
  "map node_name (map (\<lambda>(i, s). create_step_node s i) (enumerate n ss)) = map step_name ss"
  by (induction ss arbitrary: n) (simp_all add: node_name_create_step_node)

text \<open>
  C1 (as amended). The translator emits the trigger node followed by one execution node
  per step, in the order of the stored list \<open>workflow.steps\<close> (the \<open>order\<close> field is
  not read). When the source node names are pairwise distinct the connections are the
  linear chain through these names, and when the stored list is moreover sorted by
  \<open>order\<close> this is the chain in ascending \<open>order\<close>.
\<close>

theorem translator_chain_follows_stored_list:
  "nw_nodes (convert_to_n8n_format wkf) =
     create_trigger_node (trigger_type wkf) (trigger_config wkf)
       # map (\<lambda>(i, s). create_step_node s i) (enumerate 0 (steps wkf))
   \<and> map node_name (nw_nodes (convert_to_n8n_format wkf)) = trigger_name wkf # map step_name (steps wkf)
   \<and> (distinct (butlast (trigger_name wkf # map step_name (steps wkf))) \<longrightarrow>
        nw_connections (convert_to_n8n_format wkf)
          = linear_chain (trigger_name wkf # map step_name (steps wkf)))
   \<and> (distinct (butlast (trigger_name wkf # map step_name (steps wkf)))
        \<and> sorted (map order (steps wkf)) \<longrightarrow>
        nw_connections (convert_to_n8n_format wkf)
          = linear_chain (trigger_name wkf # map step_name (steps_by_order wkf)))"
proof -
  have n: "nw_nodes (convert_to_n8n_format wkf) =
     create_trigger_node (trigger_type wkf) (trigger_config wkf)
       # map (\<lambda>(i, s). create_step_node s i) (enumerate 0 (steps wkf))"
    by (rule nw_nodes_convert)
  have m: "map node_name (nw_nodes (convert_to_n8n_format wkf))
      = trigger_name wkf # map step_name (steps wkf)"
    unfolding n using names_enumerate [of 0 "steps wkf"] by (simp add: trigger_name_def)
  have c: "nw_connections (convert_to_n8n_format wkf)
          = linear_chain (trigger_name wkf # map step_name (steps wkf))"
    if "distinct (butlast (trigger_name wkf # map step_name (steps wkf)))"
    using convert_steps_conns [OF that, of "[]" 0] by (simp add: nw_connections_convert)
  have s: "steps_by_order wkf = steps wkf" if "sorted (map order (steps wkf))"
    using that by (simp add: steps_by_order_def sort_key_id_if_sorted)
  from n m c s show ?thesis by simp
qed

theorem translator_chain_follows_stored_list_witness:
  "distinct (butlast (trigger_name wf_abc # map step_name (steps wf_abc)))
   \<and> sorted (map order (steps wf_abc))
   \<and> nw_connections (convert_to_n8n_format wf_abc)
       = [edge ''Manual Trigger'' ''A'', edge ''A'' ''B'', edge ''B'' ''C'']"
proof -
  have d: "distinct (butlast (trigger_name wf_abc # map step_name (steps wf_abc)))"
    by (simp add: wf_abc_def mk_workflow_def mk_step_def trigger_name_def create_trigger_node_def)
  have s: "sorted (map order (steps wf_abc))"
    by (simp add: wf_abc_def mk_workflow_def mk_step_def)
  have l: "linear_chain (trigger_name wf_abc # map step_name (steps_by_order wf_abc))
      = [edge ''Manual Trigger'' ''A'', edge ''A'' ''B'', edge ''B'' ''C'']"
    by (simp add: wf_abc_def mk_workflow_def mk_step_def trigger_name_def create_trigger_node_def
        linear_chain_def steps_by_order_def)
  have c: "nw_connections (convert_to_n8n_format wf_abc)
      = linear_chain (trigger_name wf_abc # map step_name (steps_by_order wf_abc))"
    using translator_chain_follows_stored_list [of wf_abc] d s by blast
  show ?thesis
    by (intro conjI) (rule d, rule s, simp only: c l)
qed

text \<open>
  C1 as stated fails: a workflow whose stored steps are C (order 2), D (order 1) is
  translated to trigger, C, D, while ascending \<open>order\<close> asks for trigger, D, C.
\<close>

theorem translator_ignores_order_counterexample:
  "nw_connections (convert_to_n8n_format wf_unsorted)
     = [edge ''Manual Trigger'' ''C'', edge ''C'' ''D'']
   \<and> linear_chain (trigger_name wf_unsorted # map step_name (steps_by_order wf_unsorted))
     = [edge ''Manual Trigger'' ''D'', edge ''D'' ''C'']
   \<and> nw_connections (convert_to_n8n_format wf_unsorted)
     \<noteq> linear_chain (trigger_name wf_unsorted # map step_name (steps_by_order wf_unsorted))"
  by (simp add: wf_unsorted_def mk_workflow_def mk_step_def trigger_name_def create_trigger_node_def
        linear_chain_def steps_by_order_def convert_to_n8n_format_def Let_def connect_def edge_def
        node_name_create_step_node)


subsection \<open>The status table\<close>

text \<open>
  C5. The engine-status translation is the fixed table running to running, success to
  success, failed to failed, canceled to cancelled, waiting to pending, and every engine
  status string outside this table maps to the local status failed.
\<close>

theorem status_translation_table:
  "our_status ''running'' = RUNNING \<and>
   our_status ''success'' = SUCCESS \<and>
   our_status ''failed'' = FAILED \<and>
   our_status ''canceled'' = CANCELLED \<and>
   our_status ''waiting'' = PENDING \<and>
   (s \<notin> {''running'', ''success'', ''failed'', ''canceled'', ''waiting''}
      \<longrightarrow> our_status s = FAILED)"
  by (simp add: our_status_def status_mapping_def)

theorem status_translation_table_witness:
  "''cancelled'' \<notin> {''running'', ''success'', ''failed'', ''canceled'', ''waiting''} \<and>
   our_status ''cancelled'' = FAILED"
  using status_translation_table [of "''cancelled''"] by simp

lemmas example_defs = mk_workflow_def mk_step_def mk_execution_def engine_down_def engine_up_def
  t0_def t45_def t90_def answer_def db_draft_def db_active_def db_pending_def db_running_def db_done_def

subsection \<open>Dispatch\<close>



subsection \<open>Reconciliation\<close>

text \<open>
  C6 (as amended). When the stored execution record has no engine execution id (\<open>None\<close>
  or the empty string), \<open>get_execution_status\<close> reports the status the record has,
  whatever it is, with the error \<open>No n8n execution ID\<close>, and writes nothing. (A stored
  record that the model constructor cannot validate raises the validation error before
  that, and nothing is written either.)
\<close>

theorem missing_engine_id_reports_stored_status:
  "find_one (\<lambda>e. exec_id e = eid) (workflow_executions d) = Some e
     \<and> \<not> truthy (n8n_execution_id e) \<longrightarrow>
   n8n_get_execution_status d eng eid
     = (d, if validates_execution e
           then Inr (StatusError (exec_status e) ''No n8n execution ID'')
           else Inl ValidationError)"
  by (simp add: n8n_get_execution_status_def)

theorem missing_engine_id_reports_stored_status_witness:
  "find_one (\<lambda>e. exec_id e = ''e1'') (workflow_executions db_pending)
     = Some (mk_execution ''e1'' ''w1'' PENDING None None None)
   \<and> \<not> truthy (n8n_execution_id (mk_execution ''e1'' ''w1'' PENDING None None None))
   \<and> validates_execution (mk_execution ''e1'' ''w1'' PENDING None None None)
   \<and> n8n_get_execution_status db_pending engine_down ''e1''
     = (db_pending, Inr (StatusError PENDING ''No n8n execution ID''))"
proof -
  have a: "find_one (\<lambda>e. exec_id e = ''e1'') (workflow_executions db_pending)
     = Some (mk_execution ''e1'' ''w1'' PENDING None None None)"
    by (simp add: find_one_def example_defs)
  have b: "\<not> truthy (n8n_execution_id (mk_execution ''e1'' ''w1'' PENDING None None None))"
    by (simp add: example_defs)
  have v: "validates_execution (mk_execution ''e1'' ''w1'' PENDING None None None)"
    by (simp add: validates_execution_def example_defs)
  have c: "exec_status (mk_execution ''e1'' ''w1'' PENDING None None None) = PENDING"
    by (simp add: example_defs)
  from missing_engine_id_reports_stored_status [of "''e1''" db_pending _ engine_down] a b v c
  show ?thesis by simp
qed

text \<open>
  C6 as stated fails: a pending execution without an engine id is reported pending, not
  failed.
\<close>

theorem missing_engine_id_not_failed_counterexample:
  "map_sum id result_status (snd (n8n_get_execution_status db_pending engine_down ''e1''))
     = Inr PENDING
   \<and> map_sum id result_status (snd (n8n_get_execution_status db_pending engine_down ''e1''))
     \<noteq> Inr FAILED"
  by (simp add: n8n_get_execution_status_def find_one_def validates_execution_def example_defs)

subsection \<open>Deletion\<close>

lemma find_Some_holds: "find P xs = Some x \<Longrightarrow> P x"
  by (induction xs) (auto split: if_splits)




subsection \<open>Reconciliation: what is written, and when\<close>

lemma find_update_one:
  "find P xs = Some x \<Longrightarrow> P (f x) \<Longrightarrow> find P (update_one P f xs) = Some (f x)"
  by (induction xs) (auto split: if_splits)

lemma update_one_idem:
  "find P xs = Some x \<Longrightarrow> P (f x) \<Longrightarrow> f (f x) = f x \<Longrightarrow>
   update_one P f (update_one P f xs) = update_one P f xs"
  by (induction xs) (auto split: if_splits)

lemma find_other_update_one:
  "(\<And>x. Q (f x) = Q x) \<Longrightarrow> (find Q (update_one P f xs) = None) = (find Q xs = None)"
  by (induction xs) auto

lemma reconcile_answer:
  assumes "find_one (\<lambda>e. exec_id e = eid) (workflow_executions d) = Some e"
    and "validates_execution e"
    and "truthy (n8n_execution_id e)"
    and "get_executions eng (the (n8n_execution_id e)) = Inr r"
    and "ex_status r = Some s"
  shows "n8n_get_execution_status d eng eid =
    (case ex_finishedAt r of
       NoFinish \<Rightarrow>
         (d\<lparr>workflow_executions :=
              update_one (\<lambda>e. exec_id e = eid) (reconciled r s) (workflow_executions d)\<rparr>,
          Inr (StatusOk (our_status s) (step_results (reconciled r s e))
                 (error_message (reconciled r s e)) (started_at e) None))
     | BadFinish m \<Rightarrow> (d, Inr (StatusError FAILED m))
     | Finished fin \<Rightarrow>
         (case dt_sub fin (started_at e) of
            Inl m \<Rightarrow> (d, Inr (StatusError FAILED m))
          | Inr td \<Rightarrow>
              (d\<lparr>workflow_executions :=
                   update_one (\<lambda>e. exec_id e = eid)
                     (\<lambda>e. (reconciled r s e)\<lparr>completed_at := Some fin,
                              duration_seconds := Some (total_seconds td)\<rparr>)
                     (workflow_executions d)\<rparr>,
               Inr (StatusOk (our_status s) (step_results (reconciled r s e))
                      (error_message (reconciled r s e)) (started_at e) (Some fin)))))"
  using assms
  by (simp add: n8n_get_execution_status_def Let_def reconciled_def
      split: finishedAt.splits sum.splits)


lemma total_seconds_90: "total_seconds 90000000 = 90"
  by (simp add: total_seconds_def py_truediv_def float_exponent_def round_half_even_def bit_length.simps Let_def)




lemma reconcile_unchanged_twice:
  assumes "fst (n8n_get_execution_status d eng eid) = d"
  shows "n8n_get_execution_status (fst (n8n_get_execution_status d eng eid)) eng eid
     = n8n_get_execution_status d eng eid"
  using assms by simp

lemma reconcile_written_twice:
  assumes f: "find_one (\<lambda>e. exec_id e = eid) (workflow_executions d) = Some e"
    and v: "validates_execution e"
    and t: "truthy (n8n_execution_id e)"
    and g: "get_executions eng (the (n8n_execution_id e)) = Inr r"
    and s: "ex_status r = Some s"
    and w: "ex_finishedAt r = NoFinish \<and> u = reconciled r s
            \<or> (\<exists>fin td. ex_finishedAt r = Finished fin \<and> dt_sub fin (started_at e) = Inr td
                  \<and> u = (\<lambda>e. (reconciled r s e)\<lparr>completed_at := Some fin,
                                  duration_seconds := Some (total_seconds td)\<rparr>))"
  shows "workflow_executions (fst (n8n_get_execution_status d eng eid))
           = update_one (\<lambda>e. exec_id e = eid) u (workflow_executions d)"
    and "find_one (\<lambda>e. exec_id e = eid)
           (workflow_executions (fst (n8n_get_execution_status d eng eid))) = Some (u e)"
    and "n8n_get_execution_status (fst (n8n_get_execution_status d eng eid)) eng eid
           = (if validates_execution (u e) then n8n_get_execution_status d eng eid
              else (fst (n8n_get_execution_status d eng eid), Inl ValidationError))"
proof -
  let ?P = "\<lambda>e. exec_id e = eid"
  let ?d1 = "fst (n8n_get_execution_status d eng eid)"
  have ff: "find ?P (workflow_executions d) = Some e" using f by (simp add: find_one_def)
  have i: "exec_id e = eid" using ff by (rule find_Some_holds)
  note ans = reconcile_answer [OF f v t g s]
  have keep: "exec_id (u e) = eid" "n8n_execution_id (u e) = n8n_execution_id e"
    "started_at (u e) = started_at e" "u (u e) = u e"
    using w i by (auto simp: reconciled_def)
  show 1: "workflow_executions ?d1 = update_one ?P u (workflow_executions d)"
    using w by (auto simp: ans)
  show 2: "find_one ?P (workflow_executions ?d1) = Some (u e)"
    unfolding 1 using find_update_one [OF ff, of u] keep(1) by (simp add: find_one_def)
  have 3: "update_one ?P u (workflow_executions ?d1) = workflow_executions ?d1"
    unfolding 1 using update_one_idem [OF ff, of u] keep(1,4) by simp
  show "n8n_get_execution_status ?d1 eng eid
           = (if validates_execution (u e) then n8n_get_execution_status d eng eid
              else (?d1, Inl ValidationError))"
  proof (cases "validates_execution (u e)")
    case False
    with 2 show ?thesis by (simp add: n8n_get_execution_status_def)
  next
    case True
    have t': "truthy (n8n_execution_id (u e))" using t keep(2) by simp
    have g': "get_executions eng (the (n8n_execution_id (u e))) = Inr r"
      using g keep(2) by simp
    note ans' = reconcile_answer [OF 2 True t' g' s]
    have d1: "?d1\<lparr>workflow_executions := workflow_executions ?d1\<rparr> = ?d1" by simp
    from w show ?thesis
    proof (elim disjE conjE exE)
      assume n: "ex_finishedAt r = NoFinish" and u: "u = reconciled r s"
      have "n8n_get_execution_status ?d1 eng eid
          = (?d1, Inr (StatusOk (our_status s) (step_results (reconciled r s (u e)))
                 (error_message (reconciled r s (u e))) (started_at (u e)) None))"
        using 3 d1 by (simp add: ans' n u [symmetric])
      moreover have "n8n_get_execution_status d eng eid
          = (?d1, Inr (StatusOk (our_status s) (step_results (reconciled r s e))
                 (error_message (reconciled r s e)) (started_at e) None))"
        by (simp add: ans n)
      ultimately show ?thesis using True keep(3) by (simp add: reconciled_def)
    next
      fix fin td
      assume n: "ex_finishedAt r = Finished fin" and ds: "dt_sub fin (started_at e) = Inr td"
        and u: "u = (\<lambda>e. (reconciled r s e)\<lparr>completed_at := Some fin,
                                  duration_seconds := Some (total_seconds td)\<rparr>)"
      have ds': "dt_sub fin (started_at (u e)) = Inr td" using ds keep(3) by simp
      have "n8n_get_execution_status ?d1 eng eid
          = (?d1, Inr (StatusOk (our_status s) (step_results (reconciled r s (u e)))
                 (error_message (reconciled r s (u e))) (started_at (u e)) (Some fin)))"
        using 3 d1 by (simp add: ans' n ds' u [symmetric])
      moreover have "n8n_get_execution_status d eng eid
          = (?d1, Inr (StatusOk (our_status s) (step_results (reconciled r s e))
                 (error_message (reconciled r s e)) (started_at e) (Some fin)))"
        by (simp add: ans n ds)
      ultimately show ?thesis using True keep(3) by (simp add: reconciled_def)
    qed
  qed
qed

lemma reconcile_cases:
  "fst (n8n_get_execution_status d eng eid) = d
   \<or> (\<exists>e r s u. find_one (\<lambda>e. exec_id e = eid) (workflow_executions d) = Some e
        \<and> validates_execution e \<and> truthy (n8n_execution_id e)
        \<and> get_executions eng (the (n8n_execution_id e)) = Inr r \<and> ex_status r = Some s
        \<and> (ex_finishedAt r = NoFinish \<and> u = reconciled r s
            \<or> (\<exists>fin td. ex_finishedAt r = Finished fin \<and> dt_sub fin (started_at e) = Inr td
                  \<and> u = (\<lambda>e. (reconciled r s e)\<lparr>completed_at := Some fin,
                                  duration_seconds := Some (total_seconds td)\<rparr>))))"
  by (auto simp: n8n_get_execution_status_def Let_def
      split: option.splits sum.splits finishedAt.splits)

lemma n8n_reconcile_twice:
  "fst (n8n_get_execution_status (fst (n8n_get_execution_status d eng eid)) eng eid)
     = fst (n8n_get_execution_status d eng eid)
   \<and> (map_option validates_execution
         (find_one (\<lambda>e. exec_id e = eid)
            (workflow_executions (fst (n8n_get_execution_status d eng eid)))) \<noteq> Some False
       \<longrightarrow> n8n_get_execution_status (fst (n8n_get_execution_status d eng eid)) eng eid
            = n8n_get_execution_status d eng eid)
   \<and> (map_option validates_execution
         (find_one (\<lambda>e. exec_id e = eid)
            (workflow_executions (fst (n8n_get_execution_status d eng eid)))) = Some False
       \<longrightarrow> snd (n8n_get_execution_status (fst (n8n_get_execution_status d eng eid)) eng eid)
            = Inl ValidationError)"
proof -
  let ?d1 = "fst (n8n_get_execution_status d eng eid)"
  have inv: "snd (n8n_get_execution_status ?d1 eng eid) = Inl ValidationError"
    if "map_option validates_execution
         (find_one (\<lambda>e. exec_id e = eid) (workflow_executions ?d1)) = Some False"
    using that by (auto simp: n8n_get_execution_status_def)
  show ?thesis
  proof (rule disjE [OF reconcile_cases [of d eng eid]])
    assume "?d1 = d"
    then show ?thesis using inv by simp
  next
    assume "\<exists>e r s u. find_one (\<lambda>e. exec_id e = eid) (workflow_executions d) = Some e
        \<and> validates_execution e \<and> truthy (n8n_execution_id e)
        \<and> get_executions eng (the (n8n_execution_id e)) = Inr r \<and> ex_status r = Some s
        \<and> (ex_finishedAt r = NoFinish \<and> u = reconciled r s
            \<or> (\<exists>fin td. ex_finishedAt r = Finished fin \<and> dt_sub fin (started_at e) = Inr td
                  \<and> u = (\<lambda>e. (reconciled r s e)\<lparr>completed_at := Some fin,
                                  duration_seconds := Some (total_seconds td)\<rparr>)))"
    then obtain e r s u where
      a: "find_one (\<lambda>e. exec_id e = eid) (workflow_executions d) = Some e"
      "validates_execution e" "truthy (n8n_execution_id e)"
      "get_executions eng (the (n8n_execution_id e)) = Inr r" "ex_status r = Some s"
      "ex_finishedAt r = NoFinish \<and> u = reconciled r s
            \<or> (\<exists>fin td. ex_finishedAt r = Finished fin \<and> dt_sub fin (started_at e) = Inr td
                  \<and> u = (\<lambda>e. (reconciled r s e)\<lparr>completed_at := Some fin,
                                  duration_seconds := Some (total_seconds td)\<rparr>))"
      by (elim exE conjE) (rule that)
    note w = reconcile_written_twice [OF a]
    show ?thesis using inv by (simp add: w(2,3))
  qed
qed

lemma reconcile_keeps_owner:
  "(find (\<lambda>e. exec_id e = eid \<and> exec_user_id e = uid)
      (workflow_executions (fst (n8n_get_execution_status d eng eid))) = None)
   = (find (\<lambda>e. exec_id e = eid \<and> exec_user_id e = uid) (workflow_executions d) = None)"
  by (simp add: n8n_get_execution_status_def Let_def find_other_update_one
      split: option.splits sum.splits finishedAt.splits)

lemma service_reconcile_twice:
  "fst (get_execution_status (fst (get_execution_status d eng eid uid)) eng eid uid)
     = fst (get_execution_status d eng eid uid)
   \<and> (map_option validates_execution
         (find_one (\<lambda>e. exec_id e = eid)
            (workflow_executions (fst (get_execution_status d eng eid uid)))) \<noteq> Some False
       \<longrightarrow> get_execution_status (fst (get_execution_status d eng eid uid)) eng eid uid
            = get_execution_status d eng eid uid)"
proof (cases "find (\<lambda>e. exec_id e = eid \<and> exec_user_id e = uid) (workflow_executions d)")
  case None
  then show ?thesis by (simp add: get_execution_status_def find_one_def)
next
  case (Some a)
  then have "find (\<lambda>e. exec_id e = eid \<and> exec_user_id e = uid)
      (workflow_executions (fst (n8n_get_execution_status d eng eid))) \<noteq> None"
    by (simp add: reconcile_keeps_owner)
  then obtain b where "find (\<lambda>e. exec_id e = eid \<and> exec_user_id e = uid)
      (workflow_executions (fst (n8n_get_execution_status d eng eid))) = Some b" by blast
  with Some n8n_reconcile_twice [of d eng eid] show ?thesis
    by (simp add: get_execution_status_def find_one_def)
qed

text \<open>
  C2 (as amended). For a fixed engine answer reconciliation is idempotent on the stored
  data, for every execution, terminal or not: after one call, a further call that gets
  the same engine answer leaves the database exactly as the first call left it, hence
  \<open>completed_at\<close> and \<open>duration_seconds\<close> too. The further call returns what the first
  call returned when the record as the first call left it still validates; when it does
  not (for instance after an engine answer whose \<open>data\<close> is a list), the further call
  raises the validation error. Both the database and the result part hold for
  \<open>WorkflowService.get_execution_status\<close> as well.
\<close>

theorem reconcile_idempotent_per_engine_answer:
  "fst (n8n_get_execution_status (fst (n8n_get_execution_status d eng eid)) eng eid)
     = fst (n8n_get_execution_status d eng eid)
   \<and> (map_option validates_execution
         (find_one (\<lambda>e. exec_id e = eid)
            (workflow_executions (fst (n8n_get_execution_status d eng eid)))) \<noteq> Some False
       \<longrightarrow> n8n_get_execution_status (fst (n8n_get_execution_status d eng eid)) eng eid
            = n8n_get_execution_status d eng eid)
   \<and> (map_option validates_execution
         (find_one (\<lambda>e. exec_id e = eid)
            (workflow_executions (fst (n8n_get_execution_status d eng eid)))) = Some False
       \<longrightarrow> snd (n8n_get_execution_status (fst (n8n_get_execution_status d eng eid)) eng eid)
            = Inl ValidationError)
   \<and> fst (get_execution_status (fst (get_execution_status d eng eid uid)) eng eid uid)
     = fst (get_execution_status d eng eid uid)
   \<and> (map_option validates_execution
         (find_one (\<lambda>e. exec_id e = eid)
            (workflow_executions (fst (get_execution_status d eng eid uid)))) \<noteq> Some False
       \<longrightarrow> get_execution_status (fst (get_execution_status d eng eid uid)) eng eid uid
            = get_execution_status d eng eid uid)"
  using n8n_reconcile_twice [of d eng eid] service_reconcile_twice [of d eng eid uid]
  by blast

theorem reconcile_idempotent_per_engine_answer_witness:
  "map_option validates_execution
     (find_one (\<lambda>e. exec_id e = ''e1'')
        (workflow_executions (fst (n8n_get_execution_status db_running
           (engine_up (answer ''success'' (Finished t45))) ''e1'')))) = Some True
   \<and> n8n_get_execution_status
         (fst (n8n_get_execution_status db_running
            (engine_up (answer ''success'' (Finished t45))) ''e1''))
         (engine_up (answer ''success'' (Finished t45))) ''e1''
       = n8n_get_execution_status db_running (engine_up (answer ''success'' (Finished t45))) ''e1''
   \<and> get_execution_status
         (fst (get_execution_status db_running
            (engine_up (answer ''success'' (Finished t45))) ''e1'' ''u1''))
         (engine_up (answer ''success'' (Finished t45))) ''e1'' ''u1''
       = get_execution_status db_running (engine_up (answer ''success'' (Finished t45)))
           ''e1'' ''u1''
   \<and> map_option validates_execution
     (find_one (\<lambda>e. exec_id e = ''e1'')
        (workflow_executions (fst (n8n_get_execution_status db_running
           (engine_up answer_list_data) ''e1'')))) = Some False
   \<and> snd (n8n_get_execution_status
         (fst (n8n_get_execution_status db_running (engine_up answer_list_data) ''e1''))
         (engine_up answer_list_data) ''e1'') = Inl ValidationError"
proof -
  let ?ok = "engine_up (answer ''success'' (Finished t45))"
  let ?li = "engine_up answer_list_data"
  have v1: "map_option validates_execution
     (find_one (\<lambda>e. exec_id e = ''e1'')
        (workflow_executions (fst (n8n_get_execution_status db_running ?ok ''e1''))))
     = Some True"
    by (simp add: n8n_get_execution_status_def find_one_def Let_def validates_execution_def
        dt_sub_def example_defs)
  have s1: "fst (get_execution_status db_running ?ok ''e1'' ''u1'')
      = fst (n8n_get_execution_status db_running ?ok ''e1'')"
    by (simp add: get_execution_status_def find_one_def example_defs)
  have v2: "map_option validates_execution
     (find_one (\<lambda>e. exec_id e = ''e1'')
        (workflow_executions (fst (n8n_get_execution_status db_running ?li ''e1''))))
     = Some False"
    by (simp add: n8n_get_execution_status_def find_one_def Let_def validates_execution_def
        answer_list_data_def example_defs)
  note t1 = reconcile_idempotent_per_engine_answer [of db_running ?ok "''e1''" "''u1''"]
  note t2 = reconcile_idempotent_per_engine_answer [of db_running ?li "''e1''" "''u1''"]
  from t1 v1 have a: "n8n_get_execution_status (fst (n8n_get_execution_status db_running ?ok ''e1''))
         ?ok ''e1'' = n8n_get_execution_status db_running ?ok ''e1''"
    by simp
  from t1 v1 s1 have b: "get_execution_status
         (fst (get_execution_status db_running ?ok ''e1'' ''u1'')) ?ok ''e1'' ''u1''
       = get_execution_status db_running ?ok ''e1'' ''u1''"
    by simp
  from t2 v2 have c: "snd (n8n_get_execution_status
         (fst (n8n_get_execution_status db_running ?li ''e1'')) ?li ''e1'') = Inl ValidationError"
    by blast
  show ?thesis
    by (intro conjI) (rule v1, rule a, rule b, rule v2, rule c)
qed

text \<open>
  C2 as stated fails: a record already in the terminal state success, completed at
  \<open>t0 + 45s\<close> with duration 45, is rewritten with \<open>completed_at = t0 + 90s\<close> and duration
  90 when the engine reports that finish time at a later call.
\<close>

theorem terminal_record_overwritten_counterexample:
  "map_option (\<lambda>e. (exec_status e, completed_at e, duration_seconds e))
     (find_one (\<lambda>e. exec_id e = ''e1'') (workflow_executions db_done))
   = Some (SUCCESS, Some t45, Some 45)
   \<and> map_option (\<lambda>e. (exec_status e, completed_at e, duration_seconds e))
     (find_one (\<lambda>e. exec_id e = ''e1'')
        (workflow_executions (fst (n8n_get_execution_status db_done
           (engine_up (answer ''success'' (Finished t90))) ''e1''))))
   = Some (SUCCESS, Some t90, Some 90)
   \<and> workflow_executions (fst (n8n_get_execution_status db_done
           (engine_up (answer ''success'' (Finished t90))) ''e1''))
     \<noteq> workflow_executions db_done"
  by (simp add: n8n_get_execution_status_def find_one_def Let_def our_status_def
      status_mapping_def dt_sub_def total_seconds_90 validates_execution_def example_defs)

subsection \<open>Steps\<close>

















subsection \<open>The status of a workflow\<close>


















subsection \<open>Further facts about the examples\<close>

text \<open>
  The stored order C (order 2), D (order 1) of the translator example arises through the
  service's own operations: three steps are added, the first two are removed, a fourth is
  added.
\<close>

lemma unsorted_steps_reachable:
  "map_option steps
     (get_workflow
        (fst (add_workflow_step
          (fst (remove_workflow_step
            (fst (remove_workflow_step
              (fst (add_workflow_step
                (fst (add_workflow_step
                  (fst (add_workflow_step db_draft ''w1'' ''u1'' (mk_step ''s1'' ''A'' 0) t0))
                  ''w1'' ''u1'' (mk_step ''s2'' ''B'' 0) t0))
                ''w1'' ''u1'' (mk_step ''s3'' ''C'' 0) t0))
              ''w1'' ''u1'' ''s1'' t0))
            ''w1'' ''u1'' ''s2'' t0))
          ''w1'' ''u1'' (mk_step ''s4'' ''D'' 0) t0))
        ''w1'' ''u1'')
   = Some (steps wf_unsorted)"
  by (simp add: add_workflow_step_def remove_workflow_step_def get_workflow_def find_one_def
      Let_def wf_unsorted_def example_defs)

text \<open>
  A finish time that parses to an aware datetime (a string ending in \<open>Z\<close>) cannot be
  subtracted from the naive \<open>started_at\<close>: the call reports failed with the text of the
  \<open>TypeError\<close> and stores nothing.
\<close>

lemma aware_finish_not_stored:
  "n8n_get_execution_status db_running (engine_up (answer ''success'' (Finished t45_utc))) ''e1''
     = (db_running,
        Inr (StatusError FAILED ''can't subtract offset-naive and offset-aware datetimes''))"
  by (simp add: n8n_get_execution_status_def find_one_def Let_def dt_sub_def t45_utc_def
      validates_execution_def example_defs)

text \<open>
  The connections are keyed by node name, so two steps of the same name share one entry:
  steps named A, B, A, C give \<open>A \<rightarrow> B\<close> and \<open>A \<rightarrow> C\<close> under the one key A, not a linear chain.
\<close>

lemma duplicate_names_share_connections:
  "nw_connections (convert_to_n8n_format wf_abac)
     = [edge ''Manual Trigger'' ''A'',
        (''A'', [\<lparr>conn_node = ''B'', conn_type = ''main'', conn_index = 0\<rparr>,
                 \<lparr>conn_node = ''C'', conn_type = ''main'', conn_index = 0\<rparr>]),
        edge ''B'' ''A'']"
  by (simp add: wf_abac_def mk_workflow_def mk_step_def trigger_name_def create_trigger_node_def
        convert_to_n8n_format_def Let_def connect_def edge_def node_name_create_step_node)

text \<open>
  \<open>duration_seconds\<close> is the float nearest to the quotient, not the quotient: 45.1 seconds
  are stored as the binary64 value \<open>6347260724825293 / 2^47\<close>.
\<close>

lemma duration_is_rounded:
  "total_seconds 45100000 = 6347260724825293 / 140737488355328
   \<and> total_seconds 45100000 \<noteq> 451 / 10"
  by (simp add: total_seconds_def py_truediv_def float_exponent_def round_half_even_def bit_length.simps Let_def)

text \<open>
  The float model is exact on whole seconds: for \<open>0 < k < 2^53\<close> the quotient of
  \<open>k * b\<close> by \<open>b\<close> is representable, so \<open>py_truediv\<close> returns \<open>k\<close> itself; a
  duration of a whole number of seconds is stored as that number.
\<close>

lemma bit_length_nonneg: "0 \<le> bit_length n"
proof (induction n rule: bit_length.induct)
  case (1 n)
  show ?case
  proof (cases "n \<le> 0")
    case True
    then show ?thesis by (subst bit_length.simps) simp
  next
    case False
    with 1 show ?thesis by (subst bit_length.simps) simp
  qed
qed

lemma bit_length_upper: "n < 2 ^ nat (bit_length n)"
proof (induction n rule: bit_length.induct)
  case (1 n)
  show ?case
  proof (cases "n \<le> 0")
    case True
    then have "bit_length n = 0" by (subst bit_length.simps) simp
    with True show ?thesis by simp
  next
    case False
    then have b: "bit_length n = 1 + bit_length (n div 2)" by (subst bit_length.simps) simp
    have ih: "n div 2 < 2 ^ nat (bit_length (n div 2))" using 1 False by simp
    have "nat (1 + bit_length (n div 2)) = Suc (nat (bit_length (n div 2)))"
      using bit_length_nonneg [of "n div 2"] by simp
    then have "2 ^ nat (bit_length n) = 2 * (2::int) ^ nat (bit_length (n div 2))"
      by (simp add: b)
    with ih show ?thesis by linarith
  qed
qed

lemma bit_length_le: "n < 2 ^ j \<Longrightarrow> bit_length n \<le> int j"
proof (induction n arbitrary: j rule: bit_length.induct)
  case (1 n)
  show ?case
  proof (cases "n \<le> 0")
    case True
    then have "bit_length n = 0" by (subst bit_length.simps) simp
    then show ?thesis by simp
  next
    case False
    then have b: "bit_length n = 1 + bit_length (n div 2)" by (subst bit_length.simps) simp
    from False "1.prems" obtain k where j: "j = Suc k" by (cases j) auto
    have "n div 2 < 2 ^ k" using "1.prems" j by simp
    then have "bit_length (n div 2) \<le> int k" using "1.IH" False by simp
    with b j show ?thesis by simp
  qed
qed

lemma round_half_even_exact: "0 < d \<Longrightarrow> round_half_even (q * d) d = q"
  by (simp add: round_half_even_def)

lemma float_exponent_le:
  assumes "0 < b" and "0 < k" and "k < 2 ^ 53"
  shows "float_exponent (k * b) b \<le> 52"
proof -
  let ?dlen = "bit_length (k * b) - bit_length b"
  have "b < 2 ^ nat (bit_length b)" by (rule bit_length_upper)
  then have "k * b < 2 ^ 53 * 2 ^ nat (bit_length b)"
    using assms by (intro mult_strict_mono) simp_all
  then have "k * b < 2 ^ (53 + nat (bit_length b))" by (simp add: power_add)
  then have "bit_length (k * b) \<le> int (53 + nat (bit_length b))" by (rule bit_length_le)
  then have dl: "?dlen \<le> 53" using bit_length_nonneg [of b] by simp
  show ?thesis
  proof (cases "?dlen = 53")
    case True
    have "\<not> b * 2 ^ 53 \<le> k * b" using assms by simp
    with True show ?thesis by (simp add: float_exponent_def Let_def)
  next
    case False
    with dl show ?thesis by (simp add: float_exponent_def Let_def)
  qed
qed

lemma py_truediv_whole:
  assumes "0 < b" and "0 < k" and "k < 2 ^ 53"
  shows "py_truediv (k * b) b = of_int k"
proof -
  define j where "j = nat (52 - float_exponent (k * b) b)"
  have sh: "0 \<le> 52 - float_exponent (k * b) b"
    using float_exponent_le [OF assms] by simp
  have n0: "k * b \<noteq> 0" "\<bar>k * b\<bar> = k * b" "sgn (k * b) = 1"
    using assms by (simp_all add: sgn_mult)
  have c: "k * b * 2 ^ j = (k * 2 ^ j) * b" by (simp add: ac_simps)
  have m: "round_half_even (k * b * 2 ^ j) b = k * 2 ^ j"
    unfolding c by (rule round_half_even_exact [OF assms(1)])
  have "py_truediv (k * b) b = of_int (k * 2 ^ j) * (1 / 2 ^ j)"
    unfolding py_truediv_def Let_def n0 j_def [symmetric] using n0(1) sh m by simp
  then show ?thesis by simp
qed

lemma total_seconds_whole:
  "0 < k \<Longrightarrow> k < 2 ^ 53 \<Longrightarrow> total_seconds (k * 1000000) = of_int k"
  unfolding total_seconds_def by (rule py_truediv_whole) simp_all

end
